theory Spec2Isabelle
  imports Complex_Main "HOL-Library.Finite_Map" "HOL-Library.Multiset"
begin

section \<open>Hybrid ranking engine of \<^verbatim>\<open>ranking.py\<close> (class \<^verbatim>\<open>AdvancedRanking\<close>)\<close>

text \<open>
  The development embeds the scoring and ranking methods of \<^verbatim>\<open>AdvancedRanking\<close>:
  \<^verbatim>\<open>calculate_idf\<close>, \<^verbatim>\<open>calculate_tf\<close>, \<^verbatim>\<open>calculate_bm25_score\<close>,
  \<^verbatim>\<open>calculate_bm25_plus_score\<close>, \<^verbatim>\<open>calculate_page_rank_scores_scipy\<close>,
  \<^verbatim>\<open>combine_scores\<close> and \<^verbatim>\<open>rank_documents\<close>.

  Numbers. Python \<^verbatim>\<open>int\<close> counts are \<open>nat\<close>, finite Python floats are exact
  \<open>real\<close>s: rounding and overflow of binary64 are not modelled. What is modelled of
  IEEE 754 are the special values that NumPy array arithmetic produces instead of raising:
  a NumPy \<^verbatim>\<open>float64\<close> is an \<open>npfloat\<close>, either a finite real, an infinity or NaN.
  The two zeros are identified (every zero divisor met by the source is a \<open>+0.0\<close>).

  Faults. Every Python exception is a value \<open>Inl e\<close> of the result type \<open>py_error + 'a\<close>.

  Dictionaries are finite maps (\<open>fmap\<close>); \<^verbatim>\<open>len(d)\<close> is the number of keys. The
  one place where the source depends on the key order of a dictionary is the order in which
  the scoring tasks are submitted, and what reaches the result is the order in which they
  complete, which is an argument of the model.
\<close>

subsection \<open>Python and NumPy primitives\<close>

datatype py_error = KeyError | ValueError | ZeroDivisionError | TypeError | ArpackError

datatype npfloat = Fin real | PInf | NInf | NaN

text \<open>\<^verbatim>\<open>d.get(k, default)\<close>, \<^verbatim>\<open>d[k]\<close> and \<^verbatim>\<open>len(d)\<close>.\<close>

definition dict_get :: "('k, 'v) fmap \<Rightarrow> 'k \<Rightarrow> 'v \<Rightarrow> 'v" where
  "dict_get d k dflt = (case fmlookup d k of None \<Rightarrow> dflt | Some v \<Rightarrow> v)"

definition dict_getitem :: "('k, 'v) fmap \<Rightarrow> 'k \<Rightarrow> py_error + 'v" where
  "dict_getitem d k = (case fmlookup d k of None \<Rightarrow> Inl KeyError | Some v \<Rightarrow> Inr v)"

definition dict_len :: "('k, 'v) fmap \<Rightarrow> nat" where
  "dict_len d = fcard (fmdom d)"

text \<open>Python float division raises on a zero divisor; \<^verbatim>\<open>math.log\<close> raises
  \<^verbatim>\<open>ValueError\<close> (math domain error) outside the positive reals.\<close>

definition py_truediv :: "real \<Rightarrow> real \<Rightarrow> py_error + real" where
  "py_truediv x y = (if y = 0 then Inl ZeroDivisionError else Inr (x / y))"

definition math_log :: "real \<Rightarrow> py_error + real" where
  "math_log x = (if x \<le> 0 then Inl ValueError else Inr (ln x))"

text \<open>NumPy elementwise arithmetic on \<^verbatim>\<open>float64\<close>: no exception, IEEE special values
  (\<open>x / 0\<close> is an infinity, \<open>0 / 0\<close>, \<open>\<infinity> - \<infinity>\<close> and \<open>0 * \<infinity>\<close> are NaN, NaN propagates).\<close>

fun fadd :: "npfloat \<Rightarrow> npfloat \<Rightarrow> npfloat" where
  "fadd (Fin x) (Fin y) = Fin (x + y)"
| "fadd (Fin x) PInf = PInf"
| "fadd (Fin x) NInf = NInf"
| "fadd PInf (Fin y) = PInf"
| "fadd PInf PInf = PInf"
| "fadd PInf NInf = NaN"
| "fadd NInf (Fin y) = NInf"
| "fadd NInf PInf = NaN"
| "fadd NInf NInf = NInf"
| "fadd NaN y = NaN"
| "fadd x NaN = NaN"

fun fmul :: "npfloat \<Rightarrow> npfloat \<Rightarrow> npfloat" where
  "fmul (Fin x) (Fin y) = Fin (x * y)"
| "fmul (Fin x) PInf = (if x = 0 then NaN else if 0 < x then PInf else NInf)"
| "fmul (Fin x) NInf = (if x = 0 then NaN else if 0 < x then NInf else PInf)"
| "fmul PInf (Fin y) = (if y = 0 then NaN else if 0 < y then PInf else NInf)"
| "fmul NInf (Fin y) = (if y = 0 then NaN else if 0 < y then NInf else PInf)"
| "fmul PInf PInf = PInf"
| "fmul PInf NInf = NInf"
| "fmul NInf PInf = NInf"
| "fmul NInf NInf = PInf"
| "fmul NaN y = NaN"
| "fmul x NaN = NaN"

fun fdiv :: "npfloat \<Rightarrow> npfloat \<Rightarrow> npfloat" where
  "fdiv (Fin x) (Fin y) =
     (if y = 0 then (if x = 0 then NaN else if 0 < x then PInf else NInf) else Fin (x / y))"
| "fdiv (Fin x) PInf = Fin 0"
| "fdiv (Fin x) NInf = Fin 0"
| "fdiv PInf (Fin y) = (if 0 \<le> y then PInf else NInf)"
| "fdiv NInf (Fin y) = (if 0 \<le> y then NInf else PInf)"
| "fdiv PInf PInf = NaN"
| "fdiv PInf NInf = NaN"
| "fdiv NInf PInf = NaN"
| "fdiv NInf NInf = NaN"
| "fdiv NaN y = NaN"
| "fdiv x NaN = NaN"

text \<open>IEEE comparisons \<^verbatim>\<open><\<close> and \<^verbatim>\<open><=\<close>: false whenever an operand is NaN.\<close>

fun flt :: "npfloat \<Rightarrow> npfloat \<Rightarrow> bool" where
  "flt (Fin x) (Fin y) = (x < y)"
| "flt (Fin x) PInf = True"
| "flt NInf (Fin y) = True"
| "flt NInf PInf = True"
| "flt x y = False"

fun fle :: "npfloat \<Rightarrow> npfloat \<Rightarrow> bool" where
  "fle (Fin x) (Fin y) = (x \<le> y)"
| "fle (Fin x) PInf = True"
| "fle NInf (Fin y) = True"
| "fle NInf NInf = True"
| "fle NInf PInf = True"
| "fle PInf PInf = True"
| "fle x y = False"

text \<open>A boolean array multiplied into a float array counts as 1.0 / 0.0.\<close>

definition bool_as_float :: "bool \<Rightarrow> npfloat" where
  "bool_as_float p = (if p then Fin 1 else Fin 0)"

text \<open>\<^verbatim>\<open>np.sum\<close>; the sum of the empty array is 0.0.\<close>

definition np_sum :: "npfloat list \<Rightarrow> npfloat" where
  "np_sum xs = foldr fadd xs (Fin 0)"

text \<open>Applying a fallible function to every element, stopping at the first fault.\<close>

fun map_result :: "('a \<Rightarrow> py_error + 'b) \<Rightarrow> 'a list \<Rightarrow> py_error + 'b list" where
  "map_result f [] = Inr []"
| "map_result f (x # xs) =
     (case f x of Inl e \<Rightarrow> Inl e
      | Inr y \<Rightarrow> (case map_result f xs of Inl e \<Rightarrow> Inl e | Inr ys \<Rightarrow> Inr (y # ys)))"

text \<open>\<^verbatim>\<open>np.vectorize(f)(xs)\<close> without \<^verbatim>\<open>otypes\<close>: NumPy refuses an input of size 0
  with \<^verbatim>\<open>ValueError\<close>, otherwise it applies \<open>f\<close> elementwise.\<close>

definition np_vectorize :: "('a \<Rightarrow> py_error + 'b) \<Rightarrow> 'a list \<Rightarrow> py_error + 'b list" where
  "np_vectorize f xs = (if xs = [] then Inl ValueError else map_result f xs)"

subsection \<open>The ranker object\<close>

text \<open>
  Modelled from the spec: the \<^verbatim>\<open>Indexing\<close> collaborator is not part of the source file, so
  the shape of what it hands over is the spec's data model: the inverted index maps a term
  (string) to a mapping from document identifier (integer) to term statistics, a dictionary
  whose \<^verbatim>\<open>'frequency'\<close> entry is a non-negative integer; the document-length table maps a
  document identifier to a non-negative token count; the average length is a real number.
\<close>

type_synonym term_stats = "(string, nat) fmap"

type_synonym postings = "(int, term_stats) fmap"

text \<open>Nodes of the networkx graph are the hashable Python values put into it:
  integers (document identifiers) and strings (keys of the inverted index).\<close>

datatype node = IntNode int | StrNode string

record AdvancedRanking =
  k1 :: real
  b :: real
  avg_doc_length :: real
  inverted_index :: "(string, postings) fmap"
  doc_lengths :: "(int, nat) fmap"
  damping_factor :: real
  content_weight :: real
  pagerank_weight :: real
  page_rank_scores :: "(node, npfloat) fmap"
  k1_plus :: real
  b_plus :: real

subsection \<open>Relevance scoring\<close>

definition calculate_idf :: "AdvancedRanking \<Rightarrow> string \<Rightarrow> py_error + real" where
  "calculate_idf self t =
     (let num_docs_with_term = dict_len (dict_get (inverted_index self) t fmempty);
          num_docs = dict_len (doc_lengths self)
      in case py_truediv (real num_docs - real num_docs_with_term + 0.5)
                         (real num_docs_with_term + 0.5) of
           Inl e \<Rightarrow> Inl e
         | Inr q \<Rightarrow> math_log (q + 1.0))"

definition calculate_tf :: "AdvancedRanking \<Rightarrow> string \<Rightarrow> int \<Rightarrow> nat" where
  "calculate_tf self t doc_id =
     (let doc_info = dict_get (dict_get (inverted_index self) t fmempty) doc_id fmempty
      in dict_get doc_info ''frequency'' 0)"

text \<open>
  The two BM25 methods, array by array as in the source. \<^verbatim>\<open>idfs\<close> comes first, so an
  empty query faults in \<^verbatim>\<open>np.vectorize\<close>; the list comprehension for
  \<^verbatim>\<open>doc_lengths\<close> looks \<^verbatim>\<open>self.doc_lengths[doc_id]\<close> up once per query term.
  The mask \<^verbatim>\<open>non_zero_denominators\<close> is multiplied in after the division.
\<close>

definition calculate_bm25_score ::
  "AdvancedRanking \<Rightarrow> string list \<Rightarrow> int \<Rightarrow> py_error + npfloat" where
  "calculate_bm25_score self query_terms doc_id =
     (case np_vectorize (calculate_idf self) query_terms of
        Inl e \<Rightarrow> Inl e
      | Inr idfs \<Rightarrow>
         (let tfs = map (\<lambda>t. calculate_tf self t doc_id) query_terms
          in case map_result (\<lambda>_. dict_getitem (doc_lengths self) doc_id) query_terms of
               Inl e \<Rightarrow> Inl e
             | Inr doc_lens \<Rightarrow>
                (let numerators = map (\<lambda>tf. Fin (real tf * (k1 self + 1))) tfs;
                     denominators =
                       map2 (\<lambda>tf len.
                               fadd (Fin (real tf))
                                 (fmul (Fin (k1 self))
                                    (fadd (Fin (1 - b self))
                                       (fmul (Fin (b self))
                                          (fdiv (Fin (real len))
                                             (Fin (avg_doc_length self + 0.000001)))))))
                            tfs doc_lens;
                     non_zero_denominators = map (\<lambda>d. d \<noteq> Fin 0) denominators;
                     scores =
                       np_sum
                         (map2 fmul (map Fin idfs)
                            (map2 fmul (map2 fdiv numerators denominators)
                               (map bool_as_float non_zero_denominators)))
                 in Inr scores)))"

definition calculate_bm25_plus_score ::
  "AdvancedRanking \<Rightarrow> string list \<Rightarrow> int \<Rightarrow> py_error + npfloat" where
  "calculate_bm25_plus_score self query_terms doc_id =
     (case np_vectorize (calculate_idf self) query_terms of
        Inl e \<Rightarrow> Inl e
      | Inr idfs \<Rightarrow>
         (let tfs = map (\<lambda>t. calculate_tf self t doc_id) query_terms
          in case map_result (\<lambda>_. dict_getitem (doc_lengths self) doc_id) query_terms of
               Inl e \<Rightarrow> Inl e
             | Inr doc_lens \<Rightarrow>
                (let numerators = map (\<lambda>tf. Fin (real tf * (k1_plus self + 1))) tfs;
                     denominators =
                       map2 (\<lambda>tf len.
                               fadd (Fin (real tf))
                                 (fmul (Fin (k1_plus self))
                                    (fadd (Fin (1 - b_plus self))
                                       (fmul (Fin (b_plus self))
                                          (fdiv (Fin (real len))
                                             (Fin (avg_doc_length self + 0.000001)))))))
                            tfs doc_lens;
                     non_zero_denominators = map (\<lambda>d. d \<noteq> Fin 0) denominators;
                     scores =
                       np_sum
                         (map2 fmul (map Fin idfs)
                            (map2 fmul (map2 fdiv numerators denominators)
                               (map bool_as_float non_zero_denominators)))
                 in Inr scores)))"

subsection \<open>Ranking\<close>

definition combine_scores :: "AdvancedRanking \<Rightarrow> npfloat \<Rightarrow> npfloat \<Rightarrow> npfloat" where
  "combine_scores self content_score pagerank_score =
     fadd (fmul (Fin (content_weight self)) content_score)
          (fmul (Fin (pagerank_weight self)) pagerank_score)"

text \<open>
  The loop \<^verbatim>\<open>for future in as_completed(futures)\<close>. One scoring task per key of
  \<^verbatim>\<open>doc_lengths\<close> is submitted; the tasks only read \<^verbatim>\<open>self\<close>, so the value of a future
  is the value of \<^verbatim>\<open>calculate_bm25_plus_score\<close>. What the thread pool decides is the order
  in which the futures are handed to the loop: that order is the third argument.
  \<^verbatim>\<open>future.result()\<close> re-raises the fault of a failed task; nothing in
  \<^verbatim>\<open>rank_documents\<close> catches it, so the loop and the call end there.
\<close>

fun as_completed_loop ::
  "AdvancedRanking \<Rightarrow> string list \<Rightarrow> int list \<Rightarrow> (int \<times> npfloat) list
     \<Rightarrow> py_error + (int \<times> npfloat) list" where
  "as_completed_loop self query_terms [] scores = Inr scores"
| "as_completed_loop self query_terms (doc_id # pending) scores =
     (case calculate_bm25_plus_score self query_terms doc_id of
        Inl e \<Rightarrow> Inl e
      | Inr bm25_score \<Rightarrow>
          (let pagerank_score = dict_get (page_rank_scores self) (IntNode doc_id) (Fin 0);
               combined_score = combine_scores self bm25_score pagerank_score
           in as_completed_loop self query_terms pending (scores @ [(doc_id, combined_score)])))"

text \<open>
  \<^verbatim>\<open>sorted(scores, key=lambda x: x[1], reverse=True)\<close>: a stable sort on the score alone,
  descending; entries with equal scores keep the order they have in \<^verbatim>\<open>scores\<close>. An entry
  is inserted in front of the first entry that is not strictly greater. For keys without NaN
  the result of a stable sort is unique, so this is the list CPython returns; with a NaN key
  CPython's result depends on the comparisons Timsort happens to make and is not described
  here.
\<close>

fun insert_by_score :: "int \<times> npfloat \<Rightarrow> (int \<times> npfloat) list \<Rightarrow> (int \<times> npfloat) list" where
  "insert_by_score x [] = [x]"
| "insert_by_score x (y # ys) =
     (if flt (snd x) (snd y) then y # insert_by_score x ys else x # y # ys)"

definition sorted_by_score_reverse :: "(int \<times> npfloat) list \<Rightarrow> (int \<times> npfloat) list" where
  "sorted_by_score_reverse scores = foldr insert_by_score scores []"

text \<open>\<^verbatim>\<open>rank_documents\<close> on the expanded query terms (query expansion is the NLP
  collaborator's) and a completion order of the futures.\<close>

definition rank_documents ::
  "AdvancedRanking \<Rightarrow> string list \<Rightarrow> int list \<Rightarrow> py_error + (int \<times> npfloat) list" where
  "rank_documents self query_terms completion =
     (case as_completed_loop self query_terms completion [] of
        Inl e \<Rightarrow> Inl e
      | Inr scores \<Rightarrow> Inr (sorted_by_score_reverse scores))"

text \<open>The completion orders a run can have: every submitted future exactly once.\<close>

definition completion_order :: "AdvancedRanking \<Rightarrow> int list \<Rightarrow> bool" where
  "completion_order self completion \<longleftrightarrow>
     distinct completion \<and> fset_of_list completion = fmdom (doc_lengths self)"

subsection \<open>Authority scores\<close>

text \<open>
  The graph of \<^verbatim>\<open>calculate_page_rank_scores_scipy\<close>: a node for every key of
  \<^verbatim>\<open>doc_lengths\<close>, and for every key of the inverted index an edge to each key of its
  value (\<^verbatim>\<open>add_edge\<close> also adds both end points as nodes).
\<close>

definition graph_edges :: "AdvancedRanking \<Rightarrow> (node \<times> node) fset" where
  "graph_edges self =
     ffUnion ((\<lambda>(doc_id, links). (\<lambda>link_id. (StrNode doc_id, IntNode link_id)) |`| fmdom links)
                |`| fset_of_fmap (inverted_index self))"

definition graph_nodes :: "AdvancedRanking \<Rightarrow> node fset" where
  "graph_nodes self =
     (IntNode |`| fmdom (doc_lengths self)) |\<union>| (fst |`| graph_edges self)
       |\<union>| (snd |`| graph_edges self)"

text \<open>\<^verbatim>\<open>sorted(graph.nodes())\<close> raises \<^verbatim>\<open>TypeError\<close> when it has to compare an
  \<^verbatim>\<open>int\<close> with a \<^verbatim>\<open>str\<close>, that is when both kinds of node are present.\<close>

fun is_int_node :: "node \<Rightarrow> bool" where
  "is_int_node (IntNode i) = True"
| "is_int_node (StrNode s) = False"

definition sorted_raises :: "node fset \<Rightarrow> bool" where
  "sorted_raises ns \<longleftrightarrow> fBex ns is_int_node \<and> fBex ns (\<lambda>n. \<not> is_int_node n)"

text \<open>
  The numerical part (adjacency matrix of the sorted nodes, \<^verbatim>\<open>csr_matrix\<close>,
  \<^verbatim>\<open>scipy.sparse.linalg.eigs\<close>, normalisation, real parts zipped with the sorted nodes)
  is library code outside the source file: it is a parameter \<open>solver\<close>, which either faults
  or yields the mapping from node to score.
\<close>

type_synonym eigen_solver =
  "node fset \<Rightarrow> (node \<times> node) fset \<Rightarrow> py_error + (node, npfloat) fmap"

text \<open>The body of the \<^verbatim>\<open>try\<close> block, then the method with its
  \<^verbatim>\<open>except Exception\<close> handler.\<close>

definition page_rank_try :: "eigen_solver \<Rightarrow> AdvancedRanking \<Rightarrow> py_error + (node, npfloat) fmap" where
  "page_rank_try solver self =
     (if inverted_index self = fmempty then Inr fmempty
      else let nodes = graph_nodes self; edges = graph_edges self
           in if nodes = {||} \<or> edges = {||} then Inr fmempty
              else if sorted_raises nodes then Inl TypeError
              else solver nodes edges)"

definition calculate_page_rank_scores_scipy ::
  "eigen_solver \<Rightarrow> AdvancedRanking \<Rightarrow> py_error + (node, npfloat) fmap" where
  "calculate_page_rank_scores_scipy solver self =
     (case page_rank_try solver self of Inl e \<Rightarrow> Inr fmempty | Inr scores \<Rightarrow> Inr scores)"

text \<open>The constructor's
  \<^verbatim>\<open>self.page_rank_scores = self.calculate_page_rank_scores_scipy()\<close>.\<close>

definition init_page_rank_scores :: "eigen_solver \<Rightarrow> AdvancedRanking \<Rightarrow> py_error + AdvancedRanking" where
  "init_page_rank_scores solver self =
     (case calculate_page_rank_scores_scipy solver self of
        Inl e \<Rightarrow> Inl e
      | Inr scores \<Rightarrow> Inr (self \<lparr> page_rank_scores := scores \<rparr>))"

subsection \<open>Notions used to state the properties\<close>

text \<open>The value of the idf formula, the BM25 length normalisation \<open>k (1 - b + b len / avg)\<close>,
  the denominator and the contribution of one query term as the arrays compute them, and
  the sum over the query that the two BM25 methods are shown to return.\<close>

definition idf_value :: "AdvancedRanking \<Rightarrow> string \<Rightarrow> real" where
  "idf_value self t =
     ln ((real (dict_len (doc_lengths self))
          - real (dict_len (dict_get (inverted_index self) t fmempty)) + 0.5)
         / (real (dict_len (dict_get (inverted_index self) t fmempty)) + 0.5) + 1.0)"

definition bm25_K :: "real \<Rightarrow> real \<Rightarrow> real \<Rightarrow> nat \<Rightarrow> real" where
  "bm25_K k bb avg len = k * (1 - bb + bb * (real len / (avg + 0.000001)))"

definition bm25_denominator :: "real \<Rightarrow> real \<Rightarrow> real \<Rightarrow> nat \<Rightarrow> nat \<Rightarrow> npfloat" where
  "bm25_denominator k bb avg tf len =
     fadd (Fin (real tf))
       (fmul (Fin k)
          (fadd (Fin (1 - bb)) (fmul (Fin bb) (fdiv (Fin (real len)) (Fin (avg + 0.000001))))))"

definition bm25_term :: "real \<Rightarrow> real \<Rightarrow> real \<Rightarrow> real \<Rightarrow> nat \<Rightarrow> nat \<Rightarrow> npfloat" where
  "bm25_term k bb avg idf tf len =
     fmul (Fin idf)
       (fmul (fdiv (Fin (real tf * (k + 1))) (bm25_denominator k bb avg tf len))
             (bool_as_float (bm25_denominator k bb avg tf len \<noteq> Fin 0)))"

definition bm25_sum ::
  "real \<Rightarrow> real \<Rightarrow> AdvancedRanking \<Rightarrow> string list \<Rightarrow> int \<Rightarrow> py_error + npfloat" where
  "bm25_sum k bb self q d =
     (if q = [] then Inl ValueError
      else case fmlookup (doc_lengths self) d of
             None \<Rightarrow> Inl KeyError
           | Some len \<Rightarrow>
               Inr (np_sum (map (\<lambda>t. bm25_term k bb (avg_doc_length self) (idf_value self t)
                                        (calculate_tf self t d) len) q)))"

text \<open>Comparing two outcomes of a scoring call as numbers: both calls returned, and the
  first score is \<^verbatim>\<open><=\<close> the second; an outcome that is a finite number.\<close>

fun score_le :: "py_error + npfloat \<Rightarrow> py_error + npfloat \<Rightarrow> bool" where
  "score_le (Inr x) (Inr y) = fle x y"
| "score_le r1 r2 = False"

fun finite_score :: "py_error + npfloat \<Rightarrow> bool" where
  "finite_score (Inr (Fin x)) = True"
| "finite_score r = False"

text \<open>The snapshot that differs from \<open>self\<close> only in the \<^verbatim>\<open>'frequency'\<close> recorded for
  term \<open>t\<close> in document \<open>d\<close>, which becomes \<open>f\<close>.\<close>

definition raise_frequency :: "AdvancedRanking \<Rightarrow> string \<Rightarrow> int \<Rightarrow> nat \<Rightarrow> AdvancedRanking" where
  "raise_frequency self t d f =
     (let posting = dict_get (inverted_index self) t fmempty;
          stats = dict_get posting d fmempty
      in self \<lparr> inverted_index :=
            fmupd t (fmupd d (fmupd ''frequency'' f stats) posting) (inverted_index self) \<rparr>)"


subsection \<open>Example index snapshots\<close>

text \<open>Three documents 1, 2, 3 of length 10, average length 10, the term \<^verbatim>\<open>cat\<close> twice in
  document 1, and the constructor's default tunables and weights.\<close>

definition cat_index :: "(string, postings) fmap" where
  "cat_index = fmupd ''cat'' (fmupd 1 (fmupd ''frequency'' 2 fmempty) fmempty) fmempty"

definition three_docs :: "(int, nat) fmap" where
  "three_docs = fmupd 1 10 (fmupd 2 10 (fmupd 3 10 fmempty))"

definition ex_ranker :: AdvancedRanking where
  "ex_ranker = \<lparr> k1 = 1.5, b = 0.75, avg_doc_length = 10, inverted_index = cat_index,
      doc_lengths = three_docs, damping_factor = 0.85, content_weight = 0.7,
      pagerank_weight = 0.3, page_rank_scores = fmempty, k1_plus = 1.8, b_plus = 0.5 \<rparr>"

text \<open>The same snapshot after \<^verbatim>\<open>cat\<close> was also indexed, once, for document 2.\<close>

definition ex_ranker_two_cats :: AdvancedRanking where
  "ex_ranker_two_cats = ex_ranker \<lparr> inverted_index :=
      fmupd ''cat'' (fmupd 1 (fmupd ''frequency'' 2 fmempty)
                      (fmupd 2 (fmupd ''frequency'' 1 fmempty) fmempty)) fmempty \<rparr>"

text \<open>The first snapshot with both \<open>k1\<close> tunables set to 0.\<close>

definition ex_ranker_k0 :: AdvancedRanking where
  "ex_ranker_k0 = ex_ranker \<lparr> k1 := 0, k1_plus := 0 \<rparr>"

text \<open>A snapshot with \<open>b = 2\<close> and a short document 1 (two tokens) that holds \<^verbatim>\<open>cat\<close>
  once; the average length is still 10.\<close>

definition short_doc_ranker :: AdvancedRanking where
  "short_doc_ranker = ex_ranker \<lparr> b := 2,
      inverted_index := fmupd ''cat'' (fmupd 1 (fmupd ''frequency'' 1 fmempty) fmempty) fmempty,
      doc_lengths := fmupd 1 2 (fmupd 2 10 (fmupd 3 18 fmempty)) \<rparr>"

text \<open>A snapshot whose inverted index lists \<^verbatim>\<open>cat\<close> for a document 7 that the length
  table does not know.\<close>

definition orphan_ranker :: AdvancedRanking where
  "orphan_ranker = ex_ranker \<lparr> inverted_index :=
      fmupd ''cat'' (fmupd 1 (fmupd ''frequency'' 2 fmempty)
                      (fmupd 7 (fmupd ''frequency'' 4 fmempty) fmempty)) fmempty \<rparr>"

text \<open>The first snapshot with an empty inverted index, and a solver that always faults.\<close>

definition empty_index_ranker :: AdvancedRanking where
  "empty_index_ranker = ex_ranker \<lparr> inverted_index := fmempty \<rparr>"

definition failing_solver :: eigen_solver where
  "failing_solver nodes edges = Inl ArpackError"

section \<open>Properties\<close>

subsection \<open>Evaluating dictionaries and arrays\<close>

lemma dict_len_fmempty: "dict_len fmempty = 0"
  by (simp add: dict_len_def fcard_fempty)

lemma dict_len_fmupd:
  "dict_len (fmupd k v d) = (if k |\<in>| fmdom d then dict_len d else Suc (dict_len d))"
  by (simp add: dict_len_def fcard_finsert_if)

lemma dict_get_fmempty: "dict_get fmempty k dflt = dflt"
  by (simp add: dict_get_def)

lemma dict_get_fmupd:
  "dict_get (fmupd k' v d) k dflt = (if k' = k then v else dict_get d k dflt)"
  by (simp add: dict_get_def)

lemmas dict_eval = dict_len_fmempty dict_len_fmupd dict_get_fmempty dict_get_fmupd

lemma map_result_Inr: "map_result (\<lambda>x. Inr (g x)) xs = Inr (map g xs)"
  by (induction xs) simp_all

lemma map_result_Inl: "map_result (\<lambda>x. Inl e) xs = (if xs = [] then Inr [] else Inl e)"
  by (cases xs) simp_all

lemma zip_map_same: "zip (map f xs) (map g xs) = map (\<lambda>x. (f x, g x)) xs"
  by (induction xs) simp_all

lemma fadd_NaN_right: "fadd x NaN = NaN"
  by (cases x) simp_all

lemma fadd_Fin_iff: "fadd x y = Fin z \<longleftrightarrow> (\<exists>u v. x = Fin u \<and> y = Fin v \<and> z = u + v)"
  by (cases x; cases y) auto

lemma np_sum_map_Fin: "np_sum (map (\<lambda>x. Fin (g x)) xs) = Fin (sum_list (map g xs))"
  by (induction xs) (simp_all add: np_sum_def)

lemma np_sum_Fin_elems: "np_sum xs = Fin s \<Longrightarrow> x \<in> set xs \<Longrightarrow> \<exists>r. x = Fin r"
  by (induction xs arbitrary: s) (auto simp: np_sum_def fadd_Fin_iff)

lemma np_sum_all_Fin:
  assumes "\<And>t. t \<in> set q \<Longrightarrow> f t = Fin (g t)"
  shows "np_sum (map f q) = Fin (sum_list (map g q))"
proof -
  have "map f q = map (\<lambda>t. Fin (g t)) q"
    using assms by simp
  then show ?thesis by (simp only: np_sum_map_Fin)
qed

subsection \<open>Inverse document frequency\<close>

lemma idf_argument: "(real N - real n + 0.5) / (real n + 0.5) + 1 = (real N + 1) / (real n + 0.5)"
  by (simp add: field_simps)

lemma calculate_idf_eq: "calculate_idf self t = Inr (idf_value self t)"
proof -
  define N where "N = dict_len (doc_lengths self)"
  define n where "n = dict_len (dict_get (inverted_index self) t fmempty)"
  have pos: "0 < (real N - real n + 0.5) / (real n + 0.5) + 1"
    unfolding idf_argument by (simp add: add_pos_nonneg)
  have nz: "real n + 0.5 \<noteq> 0"
    by (simp add: add_nonneg_eq_0_iff)
  show ?thesis
    using pos nz
    by (simp add: calculate_idf_def idf_value_def py_truediv_def math_log_def Let_def N_def n_def)
qed

lemma idf_value_nonneg:
  assumes "dict_len (dict_get (inverted_index self) t fmempty) \<le> dict_len (doc_lengths self)"
  shows "0 \<le> idf_value self t"
proof -
  have "0 \<le> (real (dict_len (doc_lengths self))
          - real (dict_len (dict_get (inverted_index self) t fmempty)) + 0.5)
         / (real (dict_len (dict_get (inverted_index self) t fmempty)) + 0.5)"
    using assms by (intro divide_nonneg_pos) simp_all
  then show ?thesis by (simp add: idf_value_def)
qed

text \<open>
  Claim C7. For every term \<open>t\<close>, \<^verbatim>\<open>calculate_idf\<close> returns (never raises)
  \<open>ln ((N - n\<^sub>t + 0.5) / (n\<^sub>t + 0.5) + 1.0)\<close>, where \<open>N\<close> is the number of documents in
  the length table and \<open>n\<^sub>t\<close> the number of documents listed for \<open>t\<close>; the value is a finite
  real also when \<open>n\<^sub>t = 0\<close>, and it is non-negative whenever \<open>n\<^sub>t \<le> N\<close>.
\<close>

theorem calculate_idf_formula:
  "\<exists>x. calculate_idf self t = Inr x
     \<and> x = ln ((real (dict_len (doc_lengths self))
                - real (dict_len (dict_get (inverted_index self) t fmempty)) + 0.5)
               / (real (dict_len (dict_get (inverted_index self) t fmempty)) + 0.5) + 1.0)
     \<and> (dict_len (dict_get (inverted_index self) t fmempty) \<le> dict_len (doc_lengths self)
          \<longrightarrow> 0 \<le> x)"
  using idf_value_nonneg [of self t]
  by (simp add: calculate_idf_eq) (simp add: idf_value_def)

text \<open>Witness for C7: the term \<^verbatim>\<open>cat\<close> (one of three documents) and the unlisted term
  \<^verbatim>\<open>dog\<close> (\<open>n\<^sub>t = 0\<close>).\<close>

theorem calculate_idf_formula_witness:
  "dict_len (dict_get (inverted_index ex_ranker) ''cat'' fmempty) \<le> dict_len (doc_lengths ex_ranker)
   \<and> calculate_idf ex_ranker ''cat'' = Inr (ln (8 / 3)) \<and> 0 \<le> ln (8 / 3 :: real)
   \<and> calculate_idf ex_ranker ''dog'' = Inr (ln 8)"
  using calculate_idf_formula [of ex_ranker "''cat''"] calculate_idf_formula [of ex_ranker "''dog''"]
  by (simp add: ex_ranker_def cat_index_def three_docs_def dict_eval)

text \<open>
  Claim C9. With the number of documents held fixed, \<^verbatim>\<open>calculate_idf\<close> is strictly
  decreasing in the number of documents listed for the term: a term listed for more documents
  has a strictly smaller idf.
\<close>

theorem calculate_idf_strictly_decreasing:
  assumes "dict_len (doc_lengths s1) = dict_len (doc_lengths s2)"
    and "dict_len (dict_get (inverted_index s1) t1 fmempty)
           < dict_len (dict_get (inverted_index s2) t2 fmempty)"
  shows "\<exists>x1 x2. calculate_idf s1 t1 = Inr x1 \<and> calculate_idf s2 t2 = Inr x2 \<and> x2 < x1"
proof -
  define N where "N = dict_len (doc_lengths s2)"
  define n1 where "n1 = dict_len (dict_get (inverted_index s1) t1 fmempty)"
  define n2 where "n2 = dict_len (dict_get (inverted_index s2) t2 fmempty)"
  have lt: "n1 < n2" using assms(2) by (simp add: n1_def n2_def)
  have "(real N + 1) / (real n2 + 0.5) < (real N + 1) / (real n1 + 0.5)"
    using lt by (intro divide_strict_left_mono) (simp_all add: add_pos_nonneg)
  moreover have "0 < (real N + 1) / (real n2 + 0.5)"
    by (simp add: add_pos_nonneg)
  ultimately have "ln ((real N + 1) / (real n2 + 0.5)) < ln ((real N + 1) / (real n1 + 0.5))"
    by (simp add: ln_less_cancel_iff)
  then have "ln ((real N - real n2 + 0.5) / (real n2 + 0.5) + 1)
           < ln ((real N - real n1 + 0.5) / (real n1 + 0.5) + 1)"
    by (simp only: idf_argument)
  then show ?thesis
    using assms(1) by (simp add: calculate_idf_eq idf_value_def N_def n1_def n2_def)
qed

text \<open>Witness for C9: \<^verbatim>\<open>cat\<close> listed for one document, then for two, of three.\<close>

theorem calculate_idf_strictly_decreasing_witness:
  "dict_len (doc_lengths ex_ranker) = dict_len (doc_lengths ex_ranker_two_cats)
   \<and> dict_len (dict_get (inverted_index ex_ranker) ''cat'' fmempty)
       < dict_len (dict_get (inverted_index ex_ranker_two_cats) ''cat'' fmempty)
   \<and> (\<exists>x1 x2. calculate_idf ex_ranker ''cat'' = Inr x1
          \<and> calculate_idf ex_ranker_two_cats ''cat'' = Inr x2 \<and> x2 < x1)"
proof -
  have h1: "dict_len (doc_lengths ex_ranker) = dict_len (doc_lengths ex_ranker_two_cats)"
    by (simp add: ex_ranker_two_cats_def)
  have h2: "dict_len (dict_get (inverted_index ex_ranker) ''cat'' fmempty)
       < dict_len (dict_get (inverted_index ex_ranker_two_cats) ''cat'' fmempty)"
    by (simp add: ex_ranker_two_cats_def ex_ranker_def cat_index_def dict_eval)
  show ?thesis
    using h1 h2 calculate_idf_strictly_decreasing [OF h1 h2] by blast
qed

subsection \<open>The BM25 methods, term by term\<close>

lemma calculate_idf_fun: "calculate_idf self = (\<lambda>t. Inr (idf_value self t))"
  by (rule ext) (rule calculate_idf_eq)

lemma calculate_bm25_score_unfold:
  "calculate_bm25_score self q d = bm25_sum (k1 self) (b self) self q d"
proof (cases "q = []")
  case True
  then show ?thesis by (simp add: calculate_bm25_score_def bm25_sum_def np_vectorize_def)
next
  case False
  show ?thesis
  proof (cases "fmlookup (doc_lengths self) d")
    case None
    with False show ?thesis
      by (simp add: calculate_bm25_score_def bm25_sum_def np_vectorize_def calculate_idf_fun
          map_result_Inr dict_getitem_def map_result_Inl)
  next
    case (Some len)
    with False show ?thesis
      by (simp add: calculate_bm25_score_def bm25_sum_def np_vectorize_def calculate_idf_fun
          map_result_Inr dict_getitem_def Let_def zip_map_same bm25_term_def
          bm25_denominator_def o_def
          del: fadd.simps fmul.simps fdiv.simps)
  qed
qed

lemma calculate_bm25_plus_score_unfold:
  "calculate_bm25_plus_score self q d = bm25_sum (k1_plus self) (b_plus self) self q d"
proof (cases "q = []")
  case True
  then show ?thesis by (simp add: calculate_bm25_plus_score_def bm25_sum_def np_vectorize_def)
next
  case False
  show ?thesis
  proof (cases "fmlookup (doc_lengths self) d")
    case None
    with False show ?thesis
      by (simp add: calculate_bm25_plus_score_def bm25_sum_def np_vectorize_def
          calculate_idf_fun map_result_Inr dict_getitem_def map_result_Inl)
  next
    case (Some len)
    with False show ?thesis
      by (simp add: calculate_bm25_plus_score_def bm25_sum_def np_vectorize_def
          calculate_idf_fun map_result_Inr dict_getitem_def Let_def zip_map_same bm25_term_def
          bm25_denominator_def o_def
          del: fadd.simps fmul.simps fdiv.simps)
  qed
qed

lemma bm25_denominator_Fin:
  "avg + 0.000001 \<noteq> 0 \<Longrightarrow>
     bm25_denominator k bb avg tf len = Fin (real tf + bm25_K k bb avg len)"
  by (simp add: bm25_denominator_def bm25_K_def)

text \<open>A term whose denominator is zero is NaN, whatever its numerator: \<open>0 / 0\<close> is NaN and
  \<open>x / 0\<close> is an infinity, and both stay or become NaN when multiplied by the mask 0.\<close>

lemma bm25_term_Fin:
  assumes "avg + 0.000001 \<noteq> 0"
  shows "bm25_term k bb avg idf tf len =
     (if real tf + bm25_K k bb avg len = 0 then NaN
      else Fin (idf * (real tf * (k + 1) / (real tf + bm25_K k bb avg len))))"
  using assms by (simp add: bm25_term_def bm25_denominator_Fin bool_as_float_def)

subsection \<open>Documents missing from the length table\<close>

text \<open>
  Claim C10, as amended. For a document identifier that is absent from \<^verbatim>\<open>doc_lengths\<close>,
  \<^verbatim>\<open>calculate_bm25_score\<close> and \<^verbatim>\<open>calculate_bm25_plus_score\<close> raise \<^verbatim>\<open>KeyError\<close> for
  every non-empty query-term sequence, whatever the inverted index holds for that document;
  for the empty sequence they raise \<^verbatim>\<open>ValueError\<close>. They never return a score.
\<close>

theorem bm25_missing_document:
  assumes "fmlookup (doc_lengths self) d = None"
  shows "calculate_bm25_score self q d = (if q = [] then Inl ValueError else Inl KeyError)
       \<and> calculate_bm25_plus_score self q d = (if q = [] then Inl ValueError else Inl KeyError)"
  using assms
  by (simp add: calculate_bm25_score_unfold calculate_bm25_plus_score_unfold bm25_sum_def)

text \<open>Witness for C10: document 7 has term statistics (\<^verbatim>\<open>cat\<close> four times) but no
  length.\<close>

theorem bm25_missing_document_witness:
  "fmlookup (doc_lengths orphan_ranker) 7 = None
   \<and> calculate_tf orphan_ranker ''cat'' 7 = 4
   \<and> calculate_bm25_score orphan_ranker [''cat''] 7 = Inl KeyError
   \<and> calculate_bm25_plus_score orphan_ranker [''cat''] 7 = Inl KeyError"
proof -
  have h: "fmlookup (doc_lengths orphan_ranker) 7 = None"
    by (simp add: orphan_ranker_def ex_ranker_def three_docs_def)
  have tf: "calculate_tf orphan_ranker ''cat'' 7 = 4"
    by (simp add: calculate_tf_def orphan_ranker_def dict_eval)
  show ?thesis
    using h tf bm25_missing_document [OF h, of "[''cat'']"] by simp
qed

text \<open>Counterexample to C10 as stated (a \<^verbatim>\<open>KeyError\<close> for every query-term sequence):
  with the empty sequence the fault is the \<^verbatim>\<open>ValueError\<close> of \<^verbatim>\<open>np.vectorize\<close>, and
  \<^verbatim>\<open>doc_lengths\<close> is never looked up.\<close>

theorem bm25_missing_document_empty_query:
  "fmlookup (doc_lengths ex_ranker) 7 = None
   \<and> calculate_bm25_score ex_ranker [] 7 = Inl ValueError
   \<and> calculate_bm25_plus_score ex_ranker [] 7 = Inl ValueError
   \<and> Inl ValueError \<noteq> (Inl KeyError :: py_error + npfloat)"
  by (simp add: calculate_bm25_score_def calculate_bm25_plus_score_def np_vectorize_def
      ex_ranker_def three_docs_def)

subsection \<open>Zero denominators\<close>

lemma ex_ranker_k0_fields:
  "k1 ex_ranker_k0 = 0" "k1_plus ex_ranker_k0 = 0" "avg_doc_length ex_ranker_k0 = 10"
  "fmlookup (doc_lengths ex_ranker_k0) 2 = Some 10"
  "calculate_tf ex_ranker_k0 ''cat'' 2 = 0"
  by (simp_all add: ex_ranker_k0_def ex_ranker_def three_docs_def cat_index_def
      calculate_tf_def dict_eval)

text \<open>
  Claim C3 (the code departs from it). With \<open>k1 = 0\<close> and a document that does not contain
  the query term, the denominator \<open>tf + k1 (1 - b + b len / avg)\<close> is 0. The source divides
  first and multiplies by the mask afterwards, so the term is \<open>0 / 0 * 0\<close>, which is NaN,
  and the score returned by either method is NaN instead of 0.
\<close>

theorem bm25_zero_denominator_gives_nan:
  "bm25_denominator (k1 ex_ranker_k0) (b ex_ranker_k0) (avg_doc_length ex_ranker_k0)
      (calculate_tf ex_ranker_k0 ''cat'' 2) 10 = Fin 0
   \<and> calculate_bm25_score ex_ranker_k0 [''cat''] 2 = Inr NaN
   \<and> calculate_bm25_plus_score ex_ranker_k0 [''cat''] 2 = Inr NaN"
  by (simp add: calculate_bm25_score_unfold calculate_bm25_plus_score_unfold bm25_sum_def
      ex_ranker_k0_fields bm25_term_Fin bm25_denominator_Fin bm25_K_def np_sum_def)

subsection \<open>Monotonicity in the term frequency\<close>

lemma finite_score_iff: "finite_score r \<longleftrightarrow> (\<exists>x. r = Inr (Fin x))"
  by (cases r rule: finite_score.cases) simp_all

lemma bm25_K_nonneg:
  assumes "0 \<le> k" "0 \<le> bb" "bb \<le> 1" "0 \<le> avg"
  shows "0 \<le> bm25_K k bb avg len"
proof -
  have "0 \<le> real len / (avg + 0.000001)"
    using assms(4) by simp
  then have "0 \<le> bb * (real len / (avg + 0.000001))"
    using assms(2) by (rule mult_nonneg_nonneg [rotated])
  then have "0 \<le> 1 - bb + bb * (real len / (avg + 0.000001))"
    using assms(3) by simp
  then show ?thesis
    unfolding bm25_K_def using assms(1) by (rule mult_nonneg_nonneg [rotated])
qed

lemma saturation_mono:
  fixes K c :: real
  assumes "0 \<le> K" "0 \<le> c" "f1 < f2" "real f1 + K \<noteq> 0"
  shows "real f1 * c / (real f1 + K) \<le> real f2 * c / (real f2 + K)"
proof -
  have "0 \<le> real f1 + K" using assms(1) by simp
  then have p1: "0 < real f1 + K" using assms(4) by linarith
  have p2: "0 < real f2 + K" using assms(1,3) by (simp add: add_pos_nonneg)
  have "real f1 * K \<le> real f2 * K"
    using assms(1,3) by (simp add: mult_right_mono)
  then have "real f1 * (real f2 + K) \<le> real f2 * (real f1 + K)"
    by (simp add: algebra_simps)
  then have "real f1 / (real f1 + K) \<le> real f2 / (real f2 + K)"
    using p1 p2 by (simp add: field_simps)
  then have "c * (real f1 / (real f1 + K)) \<le> c * (real f2 / (real f2 + K))"
    using assms(2) by (rule mult_left_mono)
  then show ?thesis by (simp add: mult.commute)
qed

lemma raise_frequency_fields:
  "doc_lengths (raise_frequency self t d f) = doc_lengths self"
  "avg_doc_length (raise_frequency self t d f) = avg_doc_length self"
  "k1 (raise_frequency self t d f) = k1 self"
  "b (raise_frequency self t d f) = b self"
  by (simp_all add: raise_frequency_def Let_def)

lemma raise_frequency_tf:
  "calculate_tf (raise_frequency self t0 d f) t d =
     (if t = t0 then f else calculate_tf self t d)"
  by (simp add: raise_frequency_def calculate_tf_def Let_def dict_get_def)

lemma raise_frequency_idf:
  assumes "d |\<in>| fmdom (dict_get (inverted_index self) t0 fmempty)"
  shows "idf_value (raise_frequency self t0 d f) t = idf_value self t"
proof -
  have "dict_len (dict_get (inverted_index (raise_frequency self t0 d f)) t fmempty)
      = dict_len (dict_get (inverted_index self) t fmempty)"
    using assms
    by (auto simp: raise_frequency_def Let_def dict_get_fmupd dict_len_fmupd)
  then show ?thesis
    by (simp add: idf_value_def raise_frequency_fields)
qed

lemma raise_frequency_idf_other:
  "t \<noteq> t0 \<Longrightarrow> idf_value (raise_frequency self t0 d f) t = idf_value self t"
  by (simp add: idf_value_def raise_frequency_def Let_def dict_get_fmupd)

lemma calculate_tf_unlisted:
  "d |\<notin>| fmdom (dict_get (inverted_index self) t fmempty) \<Longrightarrow> calculate_tf self t d = 0"
  by (simp add: calculate_tf_def Let_def dict_get_def fmdom_notD)

lemma saturation_nonneg:
  fixes K c :: real
  assumes "0 \<le> K" "0 \<le> c"
  shows "0 \<le> real f * c / (real f + K)"
  using assms by (intro divide_nonneg_nonneg mult_nonneg_nonneg add_nonneg_nonneg) simp_all

lemma bm25_sum_monotone:
  assumes k: "0 \<le> k" and bb: "0 \<le> bb" "bb \<le> 1" and avg: "0 \<le> avg_doc_length self"
    and more: "calculate_tf self t0 d < f2"
    and inv: "dict_len (dict_get (inverted_index (raise_frequency self t0 d f2)) t0 fmempty)
                \<le> dict_len (doc_lengths self)"
    and fin: "finite_score (bm25_sum k bb self q d)"
  shows "finite_score (bm25_sum k bb (raise_frequency self t0 d f2) q d)
       \<and> score_le (bm25_sum k bb self q d) (bm25_sum k bb (raise_frequency self t0 d f2) q d)"
proof -
  define K where "K = (\<lambda>len. bm25_K k bb (avg_doc_length self) len)"
  define h where "h = (\<lambda>len (tf :: nat). real tf * (k + 1) / (real tf + K len))"
  define g where "g = (\<lambda>s len t. idf_value s t * h len (calculate_tf s t d))"
  let ?s2 = "raise_frequency self t0 d f2"
  have eps: "avg_doc_length self + 0.000001 \<noteq> 0" using avg by simp
  from fin obtain x1 where x1: "bm25_sum k bb self q d = Inr (Fin x1)"
    by (auto simp: finite_score_iff)
  then have q: "q \<noteq> []"
    by (auto simp: bm25_sum_def split: if_splits)
  from x1 q obtain len where len: "fmlookup (doc_lengths self) d = Some len"
    and sum1: "np_sum (map (\<lambda>t. bm25_term k bb (avg_doc_length self) (idf_value self t)
                                        (calculate_tf self t d) len) q) = Fin x1"
    by (auto simp: bm25_sum_def split: option.splits)
  have Kpos: "0 \<le> K len"
    unfolding K_def using k bb avg by (rule bm25_K_nonneg)
  have den1: "real (calculate_tf self t d) + K len \<noteq> 0" if "t \<in> set q" for t
  proof
    assume z: "real (calculate_tf self t d) + K len = 0"
    have "bm25_term k bb (avg_doc_length self) (idf_value self t) (calculate_tf self t d) len = NaN"
      using z eps by (simp add: bm25_term_Fin K_def)
    moreover have "\<exists>r. bm25_term k bb (avg_doc_length self) (idf_value self t)
                          (calculate_tf self t d) len = Fin r"
      using np_sum_Fin_elems [OF sum1] that by auto
    ultimately show False by simp
  qed
  have t1: "bm25_term k bb (avg_doc_length self) (idf_value self t) (calculate_tf self t d) len
          = Fin (g self len t)" if "t \<in> set q" for t
    using den1 [OF that] eps by (simp add: bm25_term_Fin K_def g_def h_def)
  have den2: "real (calculate_tf ?s2 t d) + K len \<noteq> 0" if "t \<in> set q" for t
  proof (cases "t = t0")
    case True
    have "0 < real f2" using more by simp
    then have "0 < real f2 + K len" using Kpos by (simp add: add_pos_nonneg)
    with True show ?thesis by (simp add: raise_frequency_tf)
  next
    case False
    with den1 [OF that] show ?thesis by (simp add: raise_frequency_tf)
  qed
  have t2: "bm25_term k bb (avg_doc_length ?s2) (idf_value ?s2 t) (calculate_tf ?s2 t d) len
          = Fin (g ?s2 len t)" if "t \<in> set q" for t
    using den2 [OF that] eps
    by (simp add: bm25_term_Fin K_def g_def h_def raise_frequency_fields)
  have s1: "bm25_sum k bb self q d = Inr (Fin (sum_list (map (g self len) q)))"
    using q len np_sum_all_Fin [of q _ "g self len", OF t1]
    by (simp add: bm25_sum_def)
  have s2: "bm25_sum k bb ?s2 q d = Inr (Fin (sum_list (map (g ?s2 len) q)))"
    using q len np_sum_all_Fin [of q _ "g ?s2 len", OF t2]
    by (simp add: bm25_sum_def raise_frequency_fields)
  have idf2: "0 \<le> idf_value ?s2 t0"
    using inv by (intro idf_value_nonneg) (simp add: raise_frequency_fields)
  have h2: "0 \<le> h len f2"
    unfolding h_def using Kpos k by (intro saturation_nonneg) simp_all
  have mono: "g self len t \<le> g ?s2 len t" if "t \<in> set q" for t
  proof (cases "t = t0")
    case False
    then show ?thesis
      by (simp add: g_def raise_frequency_tf raise_frequency_idf_other)
  next
    case True
    show ?thesis
    proof (cases "d |\<in>| fmdom (dict_get (inverted_index self) t0 fmempty)")
      case listed: True
      have "h len (calculate_tf self t0 d) \<le> h len f2"
        unfolding h_def
        using Kpos k more den1 [OF that] True by (intro saturation_mono) simp_all
      then have "idf_value ?s2 t0 * h len (calculate_tf self t0 d) \<le> idf_value ?s2 t0 * h len f2"
        using idf2 by (rule mult_left_mono)
      then show ?thesis
        using True
        by (simp add: g_def raise_frequency_tf raise_frequency_idf [OF listed])
    next
      case False
      then have "calculate_tf self t0 d = 0" by (rule calculate_tf_unlisted)
      then have "g self len t0 = 0" by (simp add: g_def h_def)
      moreover have "0 \<le> g ?s2 len t0"
        using idf2 h2 by (simp add: g_def raise_frequency_tf)
      ultimately show ?thesis using True by simp
    qed
  qed
  have "sum_list (map (g self len) q) \<le> sum_list (map (g ?s2 len) q)"
    using mono by (rule sum_list_mono)
  then show ?thesis
    by (simp add: s1 s2)
qed

text \<open>
  Claim C8, as amended. Let \<open>0 \<le> k1\<close>, \<open>0 \<le> b \<le> 1\<close> and the average length be
  non-negative, and let the document's score under the first snapshot be a finite number (no
  query term has a zero denominator). Take the second snapshot that differs only in a larger
  frequency of one term for that document (the term may occur there for the first time), and
  in which the term is listed for no more documents than the length table has. Then the
  document's score under the second snapshot is finite and not smaller.
\<close>

theorem bm25_monotone_in_frequency:
  assumes "0 \<le> k1 self" and "0 \<le> b self" and "b self \<le> 1" and "0 \<le> avg_doc_length self"
    and "calculate_tf self t d < f"
    and "dict_len (dict_get (inverted_index (raise_frequency self t d f)) t fmempty)
           \<le> dict_len (doc_lengths self)"
    and "finite_score (calculate_bm25_score self q d)"
  shows "finite_score (calculate_bm25_score (raise_frequency self t d f) q d)
       \<and> score_le (calculate_bm25_score self q d)
                  (calculate_bm25_score (raise_frequency self t d f) q d)"
  using bm25_sum_monotone [of "k1 self" "b self" self t d f q] assms
  by (simp add: calculate_bm25_score_unfold raise_frequency_fields)

lemma ex_ranker_fields:
  "k1 ex_ranker = 1.5" "b ex_ranker = 0.75" "avg_doc_length ex_ranker = 10"
  "k1_plus ex_ranker = 1.8" "b_plus ex_ranker = 0.5"
  "content_weight ex_ranker = 0.7" "pagerank_weight ex_ranker = 0.3"
  "page_rank_scores ex_ranker = fmempty"
  "d \<in> {1, 2, 3} \<Longrightarrow> fmlookup (doc_lengths ex_ranker) d = Some 10"
  "idf_value ex_ranker ''cat'' = ln (8 / 3)"
  "calculate_tf ex_ranker ''cat'' d = (if d = 1 then 2 else 0)"
  "calculate_tf ex_ranker ''dog'' d = 0"
  by (auto simp: ex_ranker_def three_docs_def cat_index_def idf_value_def calculate_tf_def
      dict_eval)

text \<open>Witness for C8, default tunables: document 2 gains its first \<^verbatim>\<open>cat\<close> (0 to 1), and
  \<^verbatim>\<open>cat\<close> in document 1 is raised from 2 to 3.\<close>

theorem bm25_monotone_in_frequency_witness:
  "0 \<le> k1 ex_ranker \<and> 0 \<le> b ex_ranker \<and> b ex_ranker \<le> 1 \<and> 0 \<le> avg_doc_length ex_ranker
   \<and> calculate_tf ex_ranker ''cat'' 2 = 0 \<and> calculate_tf ex_ranker ''cat'' 1 = 2
   \<and> calculate_bm25_score ex_ranker [''cat''] 2 = Inr (Fin 0)
   \<and> finite_score (calculate_bm25_score ex_ranker [''cat''] 1)
   \<and> finite_score (calculate_bm25_score (raise_frequency ex_ranker ''cat'' 2 1) [''cat''] 2)
   \<and> score_le (calculate_bm25_score ex_ranker [''cat''] 2)
               (calculate_bm25_score (raise_frequency ex_ranker ''cat'' 2 1) [''cat''] 2)
   \<and> finite_score (calculate_bm25_score (raise_frequency ex_ranker ''cat'' 1 3) [''cat''] 1)
   \<and> score_le (calculate_bm25_score ex_ranker [''cat''] 1)
               (calculate_bm25_score (raise_frequency ex_ranker ''cat'' 1 3) [''cat''] 1)"
proof -
  have h: "0 \<le> k1 ex_ranker" "0 \<le> b ex_ranker" "b ex_ranker \<le> 1" "0 \<le> avg_doc_length ex_ranker"
    by (simp_all add: ex_ranker_fields)
  have m2: "calculate_tf ex_ranker ''cat'' 2 < 1" and m1: "calculate_tf ex_ranker ''cat'' 1 < 3"
    by (simp_all add: ex_ranker_fields)
  have i2: "dict_len (dict_get (inverted_index (raise_frequency ex_ranker ''cat'' 2 1)) ''cat'' fmempty)
             \<le> dict_len (doc_lengths ex_ranker)"
    by (simp add: raise_frequency_def Let_def ex_ranker_def cat_index_def three_docs_def dict_eval)
  have i1: "dict_len (dict_get (inverted_index (raise_frequency ex_ranker ''cat'' 1 3)) ''cat'' fmempty)
             \<le> dict_len (doc_lengths ex_ranker)"
    by (simp add: raise_frequency_def Let_def ex_ranker_def cat_index_def three_docs_def dict_eval)
  have s2: "calculate_bm25_score ex_ranker [''cat''] 2 = Inr (Fin 0)"
    by (simp add: calculate_bm25_score_unfold bm25_sum_def ex_ranker_fields bm25_term_Fin
        bm25_K_def np_sum_def)
  have f2: "finite_score (calculate_bm25_score ex_ranker [''cat''] 2)"
    by (simp add: s2)
  have f1: "finite_score (calculate_bm25_score ex_ranker [''cat''] 1)"
    by (simp add: calculate_bm25_score_unfold bm25_sum_def ex_ranker_fields bm25_term_Fin
        bm25_K_def np_sum_def)
  show ?thesis
    using h s2 f1 bm25_monotone_in_frequency [OF h m2 i2 f2]
      bm25_monotone_in_frequency [OF h m1 i1 f1]
    by (simp add: ex_ranker_fields)
qed

lemma short_doc_fields:
  "k1 short_doc_ranker = 1.5" "b short_doc_ranker = 2" "avg_doc_length short_doc_ranker = 10"
  "fmlookup (doc_lengths short_doc_ranker) 1 = Some 2"
  "calculate_tf short_doc_ranker ''cat'' 1 = 1"
  "idf_value short_doc_ranker ''cat'' = ln (8 / 3)"
  "1 |\<in>| fmdom (dict_get (inverted_index short_doc_ranker) ''cat'' fmempty)"
  by (simp_all add: short_doc_ranker_def ex_ranker_def calculate_tf_def idf_value_def dict_eval)

text \<open>Counterexample to C8 as stated (all non-negative tunables): with \<open>b = 2\<close> and a
  document of 2 tokens against an average of 10, the length normalisation is negative;
  raising the frequency of \<^verbatim>\<open>cat\<close> from 1 to 2 lowers the score (both are finite).\<close>

theorem bm25_not_monotone_for_large_b:
  "0 \<le> k1 short_doc_ranker \<and> 0 \<le> b short_doc_ranker
   \<and> calculate_tf short_doc_ranker ''cat'' 1 < 2
   \<and> finite_score (calculate_bm25_score short_doc_ranker [''cat''] 1)
   \<and> finite_score (calculate_bm25_score (raise_frequency short_doc_ranker ''cat'' 1 2) [''cat''] 1)
   \<and> \<not> score_le (calculate_bm25_score short_doc_ranker [''cat''] 1)
         (calculate_bm25_score (raise_frequency short_doc_ranker ''cat'' 1 2) [''cat''] 1)"
proof -
  have pos: "0 < ln (8 / 3 :: real)" by simp
  show ?thesis
    using pos
    by (simp add: calculate_bm25_score_unfold bm25_sum_def raise_frequency_fields
        raise_frequency_tf raise_frequency_idf short_doc_fields bm25_term_Fin bm25_K_def
        np_sum_def)
qed

subsection \<open>The scoring loop\<close>


lemma as_completed_loop_Inl:
  assumes "d \<in> set ds" "isl (calculate_bm25_plus_score self q d)"
  shows "isl (as_completed_loop self q ds acc)"
  using assms
proof (induction ds arbitrary: acc)
  case Nil
  then show ?case by simp
next
  case (Cons x ds)
  then show ?case
    by (cases "calculate_bm25_plus_score self q x") (auto simp: Let_def)
qed



subsection \<open>The stable descending sort\<close>









lemma length_insert_by_score: "length (insert_by_score x ys) = Suc (length ys)"
  by (induction ys) auto

lemma length_sorted_by_score_reverse: "length (sorted_by_score_reverse xs) = length xs"
  by (induction xs) (simp_all add: sorted_by_score_reverse_def length_insert_by_score)












subsection \<open>Order of the ranking\<close>


lemma ex_ranker_cat_scores:
  "calculate_bm25_plus_score ex_ranker [''cat''] 1
     = Inr (Fin (ln (8 / 3) * (560000056 / 380000029)))"
  "calculate_bm25_plus_score ex_ranker [''cat''] 2 = Inr (Fin 0)"
  "calculate_bm25_plus_score ex_ranker [''cat''] 3 = Inr (Fin 0)"
  by (simp_all add: calculate_bm25_plus_score_unfold bm25_sum_def ex_ranker_fields
      bm25_term_Fin bm25_K_def np_sum_def)


lemma ex_ranker_completion_orders:
  "completion_order ex_ranker [3, 1, 2]" "completion_order ex_ranker [1, 2, 3]"
  "completion_order ex_ranker [2, 1, 3]"
  by (auto simp: completion_order_def ex_ranker_def three_docs_def)




subsection \<open>Determinism of the ranking\<close>








subsection \<open>A failing scoring task\<close>

text \<open>
  Claim C4, as amended. If the scoring task of a document among the submitted ones raises
  a fault, \<^verbatim>\<open>rank_documents\<close> returns no ranking: the fault leaves
  \<^verbatim>\<open>future.result()\<close> and the call raises.
\<close>

theorem rank_documents_propagates_fault:
  assumes "d \<in> set completion" and "calculate_bm25_plus_score self q d = Inl e"
  shows "isl (rank_documents self q completion)"
proof -
  have "isl (as_completed_loop self q completion [])"
    using assms by (intro as_completed_loop_Inl [of d]) simp_all
  then show ?thesis
    by (cases "as_completed_loop self q completion []") (simp_all add: rank_documents_def)
qed

text \<open>Witness for C4: the empty query, on which every task raises \<^verbatim>\<open>ValueError\<close>.\<close>

theorem rank_documents_propagates_fault_witness:
  "(1 :: int) \<in> set [1, 2, 3] \<and> calculate_bm25_plus_score ex_ranker [] 1 = Inl ValueError
   \<and> isl (rank_documents ex_ranker [] [1, 2, 3])"
proof -
  have h1: "(1 :: int) \<in> set [1, 2, 3]" by simp
  have h2: "calculate_bm25_plus_score ex_ranker [] 1 = Inl ValueError"
    by (simp add: calculate_bm25_plus_score_unfold bm25_sum_def)
  show ?thesis
    using h1 h2 rank_documents_propagates_fault [OF h1 h2] by simp
qed

text \<open>Counterexample to C4 as stated (a complete ranking is still returned): on the empty
  query the task of document 1 raises, and so does the ranking call.\<close>

theorem rank_documents_aborts_on_task_fault:
  "completion_order ex_ranker [1, 2, 3]
   \<and> calculate_bm25_plus_score ex_ranker [] 1 = Inl ValueError
   \<and> rank_documents ex_ranker [] [1, 2, 3] = Inl ValueError"
  by (simp add: ex_ranker_completion_orders rank_documents_def calculate_bm25_plus_score_unfold
      bm25_sum_def)

subsection \<open>Authority scores\<close>

lemma graph_edges_iff:
  "e |\<in>| graph_edges self \<longleftrightarrow>
     (\<exists>t links d. fmlookup (inverted_index self) t = Some links \<and> d |\<in>| fmdom links
        \<and> e = (StrNode t, IntNode d))"
  unfolding graph_edges_def
  by (auto simp: ffUnion.rep_eq fset_of_fmap.rep_eq set_of_map_def split: prod.splits)

lemma edges_make_sorted_raise:
  assumes "graph_edges self \<noteq> {||}"
  shows "sorted_raises (graph_nodes self)"
proof -
  from assms obtain e where e: "e |\<in>| graph_edges self" by auto
  then obtain t d where td: "e = (StrNode t, IntNode d)"
    by (auto simp: graph_edges_iff)
  have "StrNode t |\<in>| graph_nodes self"
    using e td by (force simp: graph_nodes_def)
  moreover have "IntNode d |\<in>| graph_nodes self"
    using e td by (force simp: graph_nodes_def)
  ultimately show ?thesis
    unfolding sorted_raises_def by (meson fBexI is_int_node.simps)
qed

text \<open>
  Every edge leads from a key of the inverted index (a string) to a document identifier (an
  integer), so a graph with an edge has nodes of both kinds and \<^verbatim>\<open>sorted\<close> raises before
  the solver is reached: whatever the snapshot and the solver, the method returns the empty
  mapping. What the solver would return (claim C5: non-negative values that sum to 1 within
  \<open>10\<^sup>-\<^sup>6\<close>) is a property of the numerical library behind the parameter \<open>solver\<close>.
\<close>

lemma page_rank_try_cases:
  "page_rank_try solver self = Inr fmempty \<or> page_rank_try solver self = Inl TypeError"
  using edges_make_sorted_raise [of self]
  by (auto simp: page_rank_try_def Let_def)

lemma page_rank_scores_always_empty:
  "calculate_page_rank_scores_scipy solver self = Inr fmempty"
  using page_rank_try_cases [of solver self]
  by (auto simp: calculate_page_rank_scores_scipy_def)

lemma combine_scores_no_authority:
  "combine_scores self s (Fin 0) = fmul (Fin (content_weight self)) s"
  by (cases s) (simp_all add: combine_scores_def)

lemma bm25_plus_ignores_page_rank:
  "calculate_bm25_plus_score (self \<lparr> page_rank_scores := m \<rparr>) q d
     = calculate_bm25_plus_score self q d"
proof -
  have "idf_value (self \<lparr> page_rank_scores := m \<rparr>) = idf_value self"
    by (rule ext) (simp add: idf_value_def)
  moreover have "calculate_tf (self \<lparr> page_rank_scores := m \<rparr>) = calculate_tf self"
    by (intro ext) (simp add: calculate_tf_def)
  ultimately show ?thesis
    by (simp add: calculate_bm25_plus_score_unfold bm25_sum_def split: option.splits)
qed

lemma as_completed_loop_no_authority:
  "as_completed_loop (self \<lparr> page_rank_scores := fmempty \<rparr>) q ds acc =
     (case map_result (\<lambda>d. case calculate_bm25_plus_score self q d of
                               Inl e \<Rightarrow> Inl e
                             | Inr s \<Rightarrow> Inr (d, fmul (Fin (content_weight self)) s)) ds of
        Inl e \<Rightarrow> Inl e
      | Inr scores \<Rightarrow> Inr (acc @ scores))"
proof (induction ds arbitrary: acc)
  case Nil
  then show ?case by simp
next
  case (Cons d ds)
  show ?case
  proof (cases "calculate_bm25_plus_score self q d")
    case (Inl e)
    then show ?thesis by (simp add: bm25_plus_ignores_page_rank)
  next
    case (Inr s)
    have c: "combine_scores (self \<lparr> page_rank_scores := fmempty \<rparr>) s (Fin 0)
           = fmul (Fin (content_weight self)) s"
      by (simp add: combine_scores_no_authority)
    show ?thesis
      using Inr Cons.IH [of "acc @ [(d, fmul (Fin (content_weight self)) s)]"]
      by (simp add: bm25_plus_ignores_page_rank Let_def dict_eval c split: sum.splits)
  qed
qed

text \<open>
  Claim C6. \<^verbatim>\<open>calculate_page_rank_scores_scipy\<close> never raises. If the inverted index is
  empty, or the graph has no node or no edge, or the eigen solver faults, it returns the
  empty mapping, which the constructor stores; and with the empty mapping stored, ranking
  gives every document whose task returns the combined score
  \<open>content_weight * relevance\<close>, the authority being 0.
\<close>

theorem page_rank_never_raises:
  "\<not> isl (calculate_page_rank_scores_scipy solver self)
   \<and> (inverted_index self = fmempty \<or> graph_nodes self = {||} \<or> graph_edges self = {||}
        \<or> isl (solver (graph_nodes self) (graph_edges self))
      \<longrightarrow> calculate_page_rank_scores_scipy solver self = Inr fmempty
          \<and> init_page_rank_scores solver self = Inr (self \<lparr> page_rank_scores := fmempty \<rparr>))
   \<and> rank_documents (self \<lparr> page_rank_scores := fmempty \<rparr>) q completion =
       (case map_result (\<lambda>d. case calculate_bm25_plus_score self q d of
                                 Inl e \<Rightarrow> Inl e
                               | Inr s \<Rightarrow> Inr (d, fmul (Fin (content_weight self)) s)) completion of
          Inl e \<Rightarrow> Inl e
        | Inr scores \<Rightarrow> Inr (sorted_by_score_reverse scores))"
proof -
  have a: "\<not> isl (calculate_page_rank_scores_scipy solver self)"
    by (simp add: calculate_page_rank_scores_scipy_def split: sum.splits)
  have b: "calculate_page_rank_scores_scipy solver self = Inr fmempty"
    if "inverted_index self = fmempty \<or> graph_nodes self = {||} \<or> graph_edges self = {||}
        \<or> isl (solver (graph_nodes self) (graph_edges self))"
    using that
    by (auto simp: calculate_page_rank_scores_scipy_def page_rank_try_def Let_def isl_def
        split: sum.splits)
  have c: "rank_documents (self \<lparr> page_rank_scores := fmempty \<rparr>) q completion =
       (case map_result (\<lambda>d. case calculate_bm25_plus_score self q d of
                                 Inl e \<Rightarrow> Inl e
                               | Inr s \<Rightarrow> Inr (d, fmul (Fin (content_weight self)) s)) completion of
          Inl e \<Rightarrow> Inl e
        | Inr scores \<Rightarrow> Inr (sorted_by_score_reverse scores))"
    by (simp add: rank_documents_def as_completed_loop_no_authority split: sum.splits)
  show ?thesis
    using a b c by (simp add: init_page_rank_scores_def)
qed

text \<open>Witness for C6: an empty inverted index, and a solver that faults on the example
  snapshot; the ranking of the example snapshot for \<^verbatim>\<open>cat\<close> has document 1 at
  \<open>0.7 * relevance\<close>.\<close>

theorem page_rank_never_raises_witness:
  "inverted_index empty_index_ranker = fmempty
   \<and> isl (failing_solver (graph_nodes ex_ranker) (graph_edges ex_ranker))
   \<and> \<not> isl (calculate_page_rank_scores_scipy failing_solver ex_ranker)
   \<and> calculate_page_rank_scores_scipy failing_solver empty_index_ranker = Inr fmempty
   \<and> calculate_page_rank_scores_scipy failing_solver ex_ranker = Inr fmempty
   \<and> init_page_rank_scores failing_solver ex_ranker = Inr ex_ranker
   \<and> rank_documents ex_ranker [''cat''] [1]
       = Inr [(1, fmul (Fin 0.7) (Fin (ln (8 / 3) * (560000056 / 380000029))))]"
proof -
  have h1: "inverted_index empty_index_ranker = fmempty"
    by (simp add: empty_index_ranker_def)
  have h2: "isl (failing_solver (graph_nodes ex_ranker) (graph_edges ex_ranker))"
    by (simp add: failing_solver_def)
  have e: "ex_ranker \<lparr> page_rank_scores := fmempty \<rparr> = ex_ranker"
    by (simp add: ex_ranker_def)
  show ?thesis
    using h1 h2 page_rank_never_raises [of failing_solver empty_index_ranker "[]" "[]"]
      page_rank_never_raises [of failing_solver ex_ranker "[''cat'']" "[1]"]
    by (simp add: e ex_ranker_cat_scores ex_ranker_fields sorted_by_score_reverse_def)
qed

end
